theory Spec2Isabelle
  imports Complex_Main "HOL-Library.Sublist"
begin

section \<open>The parking-space controller: schedule normalizer and nearby search\<close>

text \<open>
  A shallow embedding of \<^verbatim>\<open>transformCustomTimes\<close> and \<^verbatim>\<open>findNearbyParkingSpaces\<close> of the
  parking-space controller. JavaScript values that reach the code from a JSON body are
  a datatype, the request query is a record of optional strings, the store is a function
  from the query document to the documents it returns, and the host (its time zone and
  its \<^verbatim>\<open>Date.parse\<close>) is a record of parameters.
\<close>

subsection \<open>JavaScript values of the schedule input\<close>

text \<open>
  The values \<^verbatim>\<open>JSON.parse\<close> can produce. An object (an array too) carries its own
  properties as an association list; a number carries the value of its double.
\<close>

datatype jsval =
    JUndefined
  | JNull
  | JBool bool
  | JNum real
  | JStr string
  | JObj "(string \<times> jsval) list"

text \<open>ToBoolean, as the \<^verbatim>\<open>if (...)\<close> of the normalizer applies it.\<close>

fun truthy :: "jsval \<Rightarrow> bool" where
  "truthy JUndefined = False"
| "truthy JNull = False"
| "truthy (JBool b) = b"
| "truthy (JNum n) = (n \<noteq> 0)"
| "truthy (JStr s) = (s \<noteq> [])"
| "truthy (JObj fs) = True"

text \<open>
  Member access \<^verbatim>\<open>v.k\<close> for the keys \<^verbatim>\<open>in\<close> and \<^verbatim>\<open>out\<close>: an own property of an
  object, \<^verbatim>\<open>undefined\<close> otherwise (no primitive wrapper has these keys). The code reads a
  member only of a truthy value, so the TypeError of \<^verbatim>\<open>undefined.k\<close> and \<^verbatim>\<open>null.k\<close> is
  never reached.
\<close>

fun getProp :: "jsval \<Rightarrow> string \<Rightarrow> jsval" where
  "getProp (JObj fs) k = (case map_of fs k of Some v \<Rightarrow> v | None \<Rightarrow> JUndefined)"
| "getProp v k = JUndefined"

text \<open>\<^verbatim>\<open>customTimes[key]\<close> on the schedule map: a missing key reads \<^verbatim>\<open>undefined\<close>.\<close>

definition getEntry :: "(string \<rightharpoonup> jsval) \<Rightarrow> string \<Rightarrow> jsval" where
  "getEntry customTimes k = (case customTimes k of Some v \<Rightarrow> v | None \<Rightarrow> JUndefined)"

subsection \<open>Strings\<close>

definition lowerChar :: "char \<Rightarrow> char" where
  "lowerChar c =
     (case map_of (zip ''ABCDEFGHIJKLMNOPQRSTUVWXYZ'' ''abcdefghijklmnopqrstuvwxyz'') c of
        Some l \<Rightarrow> l
      | None \<Rightarrow> c)"

text \<open>\<^verbatim>\<open>String.prototype.toLowerCase\<close> on ASCII text (the day names are ASCII).\<close>

definition toLowerCase :: "string \<Rightarrow> string" where
  "toLowerCase s = map lowerChar s"

text \<open>
  \<^verbatim>\<open>s.split(',')\<close>: the pieces between the commas, empty pieces kept; the result is never
  the empty array.
\<close>

fun split_comma :: "string \<Rightarrow> string list" where
  "split_comma [] = [[]]"
| "split_comma (c # cs) =
     (if c = CHR '','' then [] # split_comma cs
      else (case split_comma cs of
              [] \<Rightarrow> [[c]]
            | p # ps \<Rightarrow> (c # p) # ps))"

subsection \<open>The schedule normalizer\<close>

record 't slot =
  day :: string
  fromTime :: 't
  toTime :: 't

definition daysOfWeek :: "string list" where
  "daysOfWeek =
     [''Monday'', ''Tuesday'', ''Wednesday'', ''Thursday'', ''Friday'', ''Saturday'', ''Sunday'']"

text \<open>
  The body of the \<^verbatim>\<open>forEach\<close> callback: the array \<^verbatim>\<open>availability\<close> is the state, and
  \<^verbatim>\<open>push\<close> appends at its end.
\<close>

definition pushDay :: "(string \<rightharpoonup> jsval) \<Rightarrow> jsval slot list \<Rightarrow> string \<Rightarrow> jsval slot list" where
  "pushDay customTimes availability d =
     (if truthy (getEntry customTimes (toLowerCase d))
      then availability @
             [\<lparr>day = d,
               fromTime = getProp (getEntry customTimes (toLowerCase d)) ''in'',
               toTime = getProp (getEntry customTimes (toLowerCase d)) ''out''\<rparr>]
      else availability)"

definition transformCustomTimes :: "(string \<rightharpoonup> jsval) \<Rightarrow> jsval slot list" where
  "transformCustomTimes customTimes = foldl (pushDay customTimes) [] daysOfWeek"

subsection \<open>Numeric strings: \<^verbatim>\<open>isNaN\<close> on a string\<close>

text \<open>
  \<^verbatim>\<open>isNaN(s)\<close> converts the string with StringToNumber and tests for NaN. The conversion
  gives NaN exactly when the string, with white space trimmed at both ends, is neither
  empty nor a StrNumericLiteral of the language grammar. (White space is the ASCII part
  of the language's StrWhiteSpaceChar.)
\<close>

definition isWhiteSpace :: "char \<Rightarrow> bool" where
  "isWhiteSpace c \<longleftrightarrow> c \<in> set [CHR '' '', CHR 0x09, CHR 0x0A, CHR 0x0B, CHR 0x0C, CHR 0x0D]"

definition trim :: "string \<Rightarrow> string" where
  "trim s = rev (dropWhile isWhiteSpace (rev (dropWhile isWhiteSpace s)))"

definition isDecimalDigit :: "char \<Rightarrow> bool" where
  "isDecimalDigit c \<longleftrightarrow> c \<in> set ''0123456789''"

definition isHexDigit :: "char \<Rightarrow> bool" where
  "isHexDigit c \<longleftrightarrow> c \<in> set ''0123456789abcdefABCDEF''"

definition isOctalDigit :: "char \<Rightarrow> bool" where
  "isOctalDigit c \<longleftrightarrow> c \<in> set ''01234567''"

definition isBinaryDigit :: "char \<Rightarrow> bool" where
  "isBinaryDigit c \<longleftrightarrow> c \<in> set ''01''"

definition dropSign :: "string \<Rightarrow> string" where
  "dropSign s =
     (case s of
        [] \<Rightarrow> []
      | c # r \<Rightarrow> if c = CHR ''+'' \<or> c = CHR ''-'' then r else s)"

definition ExponentPart :: "string \<Rightarrow> bool" where
  "ExponentPart r =
     (case r of
        [] \<Rightarrow> False
      | e # r' \<Rightarrow> (e = CHR ''e'' \<or> e = CHR ''E'') \<and> dropSign r' \<noteq> [] \<and>
                  list_all isDecimalDigit (dropSign r'))"

definition StrUnsignedDecimalLiteral :: "string \<Rightarrow> bool" where
  "StrUnsignedDecimalLiteral s =
     (s = ''Infinity'' \<or>
      (let ip = takeWhile isDecimalDigit s; r = dropWhile isDecimalDigit s in
       case r of
         [] \<Rightarrow> ip \<noteq> []
       | c # r2 \<Rightarrow>
           if c = CHR ''.''
           then (let fp = takeWhile isDecimalDigit r2; r3 = dropWhile isDecimalDigit r2
                 in (ip \<noteq> [] \<or> fp \<noteq> []) \<and> (r3 = [] \<or> ExponentPart r3))
           else ip \<noteq> [] \<and> ExponentPart r))"

definition StrDecimalLiteral :: "string \<Rightarrow> bool" where
  "StrDecimalLiteral s = StrUnsignedDecimalLiteral (dropSign s)"

definition NonDecimalIntegerLiteral :: "string \<Rightarrow> bool" where
  "NonDecimalIntegerLiteral s =
     (case s of
        z # x # ds \<Rightarrow>
          z = CHR ''0'' \<and> ds \<noteq> [] \<and>
          ((x = CHR ''x'' \<or> x = CHR ''X'') \<and> list_all isHexDigit ds \<or>
           (x = CHR ''o'' \<or> x = CHR ''O'') \<and> list_all isOctalDigit ds \<or>
           (x = CHR ''b'' \<or> x = CHR ''B'') \<and> list_all isBinaryDigit ds)
      | _ \<Rightarrow> False)"

definition isNaN_string :: "string \<Rightarrow> bool" where
  "isNaN_string s =
     (let t = trim s in \<not> (t = [] \<or> StrDecimalLiteral t \<or> NonDecimalIntegerLiteral t))"

subsection \<open>Dates\<close>

text \<open>
  A Date is its time value, milliseconds since the epoch in UTC, or \<open>None\<close> for an
  Invalid Date (NaN). The host fixes the time zone and the engine's parser:
  \<^item> \<open>Date_parse\<close> is \<^verbatim>\<open>Date.parse\<close> of the engine on the strings this model does not
    read itself;
  \<^item> \<open>LocalTZA\<close> is the offset of local time from UTC, in milliseconds, at an instant;
  \<^item> \<open>LocalTZA_1970\<close> is the offset in force on the local day 1970-01-01 (a single
    offset through that day).
\<close>

record host =
  Date_parse :: "string \<Rightarrow> int option"
  LocalTZA :: "int \<Rightarrow> int"
  LocalTZA_1970 :: int

definition digitValue :: "char \<Rightarrow> nat option" where
  "digitValue c =
     map_of [(CHR ''0'', 0), (CHR ''1'', 1), (CHR ''2'', 2), (CHR ''3'', 3), (CHR ''4'', 4),
             (CHR ''5'', 5), (CHR ''6'', 6), (CHR ''7'', 7), (CHR ''8'', 8), (CHR ''9'', 9)] c"

text \<open>A clock time \<^verbatim>\<open>HH:MM\<close> (00:00 to 23:59), as minutes since midnight.\<close>

definition parseHHMM :: "string \<Rightarrow> nat option" where
  "parseHHMM s =
     (case s of
        [a, b, c, d, e] \<Rightarrow>
          (if c = CHR '':'' then
             (case (digitValue a, digitValue b, digitValue d, digitValue e) of
                (Some h1, Some h2, Some m1, Some m2) \<Rightarrow>
                  (if 10 * h1 + h2 \<le> 23 \<and> 10 * m1 + m2 \<le> 59
                   then Some ((10 * h1 + h2) * 60 + (10 * m1 + m2))
                   else None)
              | _ \<Rightarrow> None)
           else None)
      | _ \<Rightarrow> None)"

text \<open>The strings \<^verbatim>\<open>1970-01-01THH:MM:00\<close>, the form the matcher builds.\<close>

definition epochDayClock :: "string \<Rightarrow> nat option" where
  "epochDayClock s =
     (if take 11 s = ''1970-01-01T'' \<and> drop 16 s = '':00''
      then parseHHMM (take 5 (drop 11 s))
      else None)"

text \<open>
  \<^verbatim>\<open>new Date(s)\<close> on a string. A date-time without an offset is local time, so
  \<^verbatim>\<open>1970-01-01THH:MM:00\<close> is that wall-clock time of the host on 1970-01-01; every other
  string is left to the engine's parser.
\<close>

definition newDate :: "host \<Rightarrow> string \<Rightarrow> int option" where
  "newDate h s =
     (case epochDayClock s of
        Some m \<Rightarrow> Some (int m * 60000 - LocalTZA_1970 h)
      | None \<Rightarrow> Date_parse h s)"

text \<open>\<^verbatim>\<open>new Date(x)\<close> on a query parameter: \<^verbatim>\<open>new Date(undefined)\<close> is an Invalid Date.\<close>

definition newDate_param :: "host \<Rightarrow> string option \<Rightarrow> int option" where
  "newDate_param h x = (case x of None \<Rightarrow> None | Some s \<Rightarrow> newDate h s)"

text \<open>Comparison of two Dates by their time values; with NaN on either side it is false.\<close>

definition date_ge :: "int option \<Rightarrow> int option \<Rightarrow> bool" where
  "date_ge a b = (case (a, b) of (Some x, Some y) \<Rightarrow> x \<ge> y | _ \<Rightarrow> False)"

definition date_le :: "int option \<Rightarrow> int option \<Rightarrow> bool" where
  "date_le a b = (case (a, b) of (Some x, Some y) \<Rightarrow> x \<le> y | _ \<Rightarrow> False)"

definition localTime :: "host \<Rightarrow> int \<Rightarrow> int" where
  "localTime h t = t + LocalTZA h t"

definition weekdayNames :: "string list" where
  "weekdayNames =
     [''Sunday'', ''Monday'', ''Tuesday'', ''Wednesday'', ''Thursday'', ''Friday'', ''Saturday'']"

text \<open>
  \<^verbatim>\<open>d.toLocaleString('en-US', { weekday: 'long' })\<close>: the name of the local week day;
  day 0 of the epoch was a Thursday.
\<close>

definition weekdayLong :: "host \<Rightarrow> int \<Rightarrow> string" where
  "weekdayLong h t = weekdayNames ! nat ((localTime h t div 86400000 + 4) mod 7)"

definition hourFromTime :: "int \<Rightarrow> nat" where
  "hourFromTime lt = nat ((lt div 3600000) mod 24)"

definition minFromTime :: "int \<Rightarrow> nat" where
  "minFromTime lt = nat ((lt div 60000) mod 60)"

definition digitChar :: "nat \<Rightarrow> char" where
  "digitChar n = ''0123456789'' ! n"

definition pad2 :: "nat \<Rightarrow> string" where
  "pad2 n = [digitChar (n div 10), digitChar (n mod 10)]"

text \<open>\<^verbatim>\<open>d.toTimeString().slice(0, 5)\<close>: the local clock time as \<^verbatim>\<open>HH:MM\<close>.\<close>

definition toTimeString_slice :: "host \<Rightarrow> int \<Rightarrow> string" where
  "toTimeString_slice h t =
     pad2 (hourFromTime (localTime h t)) @ '':'' @ pad2 (minFromTime (localTime h t))"

subsection \<open>The availability matcher\<close>

text \<open>\<^verbatim>\<open>Array.prototype.some\<close> and \<^verbatim>\<open>Array.prototype.filter\<close>, as the loops they are.\<close>

fun some_js :: "('a \<Rightarrow> bool) \<Rightarrow> 'a list \<Rightarrow> bool" where
  "some_js p [] = False"
| "some_js p (x # xs) = (if p x then True else some_js p xs)"

fun filter_js :: "('a \<Rightarrow> bool) \<Rightarrow> 'a list \<Rightarrow> 'a list" where
  "filter_js p [] = []"
| "filter_js p (x # xs) = (if p x then x # filter_js p xs else filter_js p xs)"

text \<open>The callback of \<^verbatim>\<open>daysAvailable.some\<close>, on a stored slot.\<close>

definition slotCovers :: "host \<Rightarrow> int \<Rightarrow> int \<Rightarrow> string slot \<Rightarrow> bool" where
  "slotCovers h timeInDate timeOutDate s =
     (if day s = weekdayLong h timeInDate then
        (let fromT = newDate h (''1970-01-01T'' @ fromTime s @ '':00'');
             toT = newDate h (''1970-01-01T'' @ toTime s @ '':00'');
             startReservation =
               newDate h (''1970-01-01T'' @ toTimeString_slice h timeInDate @ '':00'');
             endReservation =
               newDate h (''1970-01-01T'' @ toTimeString_slice h timeOutDate @ '':00'')
         in date_ge startReservation fromT \<and> date_le endReservation toT)
      else False)"

text \<open>
  Modelled from the spec: the schema of the stored parking space is not part of the
  sources; the record has the fields the search reads (ParkingSpaceRecord of the data
  model), with the slot times stored as strings.
\<close>

record parkingSpace =
  ident :: string
  coordinates :: "real \<times> real"
  availableFrom :: int
  isAvailable :: bool
  daysAvailable :: "string slot list"

text \<open>The callback of \<^verbatim>\<open>parkingSpaces.filter\<close>.\<close>

definition timeAvailable :: "host \<Rightarrow> int \<Rightarrow> int \<Rightarrow> parkingSpace \<Rightarrow> bool" where
  "timeAvailable h timeInDate timeOutDate p =
     some_js (slotCovers h timeInDate timeOutDate) (daysAvailable p)"

subsection \<open>The search\<close>

text \<open>
  The query parameters the handler reads: each is a string, or absent (\<^verbatim>\<open>undefined\<close>).
\<close>

record request =
  location :: "string option"
  timeIn :: "string option"
  timeOut :: "string option"

text \<open>
  The document passed to \<^verbatim>\<open>ParkingSpace.find\<close>: the \<^verbatim>\<open>$centerSphere\<close> centre (the two
  strings as split from the request, longitude first) and radius, the \<^verbatim>\<open>$lte\<close> bound
  on \<^verbatim>\<open>availableFrom\<close>, and the value required of \<^verbatim>\<open>isAvailable\<close>.
\<close>

record findQuery =
  centerSphere_center :: "string \<times> string"
  centerSphere_radius :: real
  availableFrom_lte :: int
  isAvailable_eq :: bool

datatype response =
    Status400 string
  | Status200 "parkingSpace list"
  | Rejected

text \<open>
  The handler. The store is the function \<open>dbFind\<close> (\<open>None\<close> when the query fails, and
  the handler's promise is then rejected). The result is the list of store queries
  issued and the response.
\<close>

definition findNearbyParkingSpaces ::
    "host \<Rightarrow> (findQuery \<Rightarrow> parkingSpace list option) \<Rightarrow> request \<Rightarrow> findQuery list \<times> response" where
  "findNearbyParkingSpaces h dbFind req =
     (case location req of
        None \<Rightarrow> ([], Status400 ''Location is required'')
      | Some loc \<Rightarrow>
          if loc = [] then ([], Status400 ''Location is required'')
          else
            (case split_comma loc of
               lat # lng # rest \<Rightarrow>
                 if isNaN_string lat \<or> isNaN_string lng
                 then ([], Status400 ''Invalid location format'')
                 else
                   (case (newDate_param h (timeIn req), newDate_param h (timeOut req)) of
                      (Some timeInDate, Some timeOutDate) \<Rightarrow>
                        (let q = \<lparr>centerSphere_center = (lng, lat),
                                  centerSphere_radius = 5 / 6378.1,
                                  availableFrom_lte = timeInDate,
                                  isAvailable_eq = True\<rparr>
                         in case dbFind q of
                              None \<Rightarrow> ([q], Rejected)
                            | Some parkingSpaces \<Rightarrow>
                                ([q], Status200
                                   (filter_js (timeAvailable h timeInDate timeOutDate)
                                      parkingSpaces)))
                    | _ \<Rightarrow> ([], Status400 ''Invalid date format''))
             | _ \<Rightarrow> ([], Status400 ''Invalid location format'')))"

text \<open>
  Modelled from the spec: the store's evaluation of the query (the store is an external
  collaborator): the documents of the collection, in the store's order, whose
  coordinate lies in the spherical cap, whose \<open>availableFrom\<close> is at most the bound and
  whose \<open>isAvailable\<close> has the required value. The cap test \<open>geoWithin\<close> is the store's.
\<close>

definition storeFind ::
    "(string \<times> string \<Rightarrow> real \<Rightarrow> real \<times> real \<Rightarrow> bool) \<Rightarrow> parkingSpace list \<Rightarrow>
     findQuery \<Rightarrow> parkingSpace list option" where
  "storeFind geoWithin docs q =
     Some (filter
       (\<lambda>d. geoWithin (centerSphere_center q) (centerSphere_radius q) (coordinates d) \<and>
            availableFrom d \<le> availableFrom_lte q \<and>
            isAvailable d = isAvailable_eq q)
       docs)"

subsection \<open>Notions of the specification\<close>

text \<open>
  The time of day of a timestamp (hours and minutes of the local clock, as minutes since
  midnight) and its local calendar day (days since the epoch).
\<close>

definition clockMinutes :: "host \<Rightarrow> int \<Rightarrow> nat" where
  "clockMinutes h t = hourFromTime (localTime h t) * 60 + minFromTime (localTime h t)"

definition localDay :: "host \<Rightarrow> int \<Rightarrow> int" where
  "localDay h t = localTime h t div 86400000"

text \<open>A slot whose two times are clock times, the opening not before the closing.\<close>

definition fromNotBeforeTo :: "string slot \<Rightarrow> bool" where
  "fromNotBeforeTo s =
     (case (parseHHMM (fromTime s), parseHHMM (toTime s)) of
        (Some f, Some t) \<Rightarrow> f \<ge> t
      | _ \<Rightarrow> False)"

subsection \<open>Hosts and data for the examples\<close>

text \<open>
  A host on UTC whose parser reads the four timestamps of the examples:
  2024-03-04 is a Monday, 2024-03-05 a Tuesday.
\<close>

definition utcHost :: host where
  "utcHost =
     \<lparr>Date_parse = map_of
        [(''2024-03-04T10:00:00Z'', 1709546400000),
         (''2024-03-04T12:00:00Z'', 1709553600000),
         (''2024-03-04T18:00:00Z'', 1709575200000),
         (''2024-03-05T08:00:00Z'', 1709625600000)],
      LocalTZA = (\<lambda>t. 0),
      LocalTZA_1970 = 0\<rparr>"

definition mondaySlot :: "string slot" where
  "mondaySlot = \<lparr>day = ''Monday'', fromTime = ''09:00'', toTime = ''17:00''\<rparr>"

definition overnightSlot :: "string slot" where
  "overnightSlot = \<lparr>day = ''Monday'', fromTime = ''17:00'', toTime = ''09:00''\<rparr>"

definition mondaySpace :: parkingSpace where
  "mondaySpace =
     \<lparr>ident = ''A'', coordinates = (-122.42, 37.77), availableFrom = 1704067200000,
      isAvailable = True, daysAvailable = [mondaySlot]\<rparr>"

definition tuesdaySpace :: parkingSpace where
  "tuesdaySpace =
     \<lparr>ident = ''B'', coordinates = (-122.42, 37.77), availableFrom = 1704067200000,
      isAvailable = True,
      daysAvailable = [\<lparr>day = ''Tuesday'', fromTime = ''09:00'', toTime = ''17:00''\<rparr>]\<rparr>"

definition longDaySpace :: parkingSpace where
  "longDaySpace =
     \<lparr>ident = ''C'', coordinates = (-122.42, 37.77), availableFrom = 1704067200000,
      isAvailable = True,
      daysAvailable = [\<lparr>day = ''Monday'', fromTime = ''08:00'', toTime = ''20:00''\<rparr>,
                       \<lparr>day = ''Tuesday'', fromTime = ''08:00'', toTime = ''20:00''\<rparr>]\<rparr>"

definition closedSpace :: parkingSpace where
  "closedSpace = mondaySpace\<lparr>ident := ''D'', isAvailable := False\<rparr>"

definition futureSpace :: parkingSpace where
  "futureSpace = mondaySpace\<lparr>ident := ''E'', availableFrom := 1735689600000\<rparr>"

definition farSpace :: parkingSpace where
  "farSpace = mondaySpace\<lparr>ident := ''F'', coordinates := (2.35, 48.86)\<rparr>"

text \<open>A stand-in for the store's cap test: the coordinate of the examples is inside.\<close>

definition sampleGeoWithin :: "string \<times> string \<Rightarrow> real \<Rightarrow> real \<times> real \<Rightarrow> bool" where
  "sampleGeoWithin c r xy \<longleftrightarrow> xy = (-122.42, 37.77)"

definition sampleSchedule :: "string \<rightharpoonup> jsval" where
  "sampleSchedule =
     [''monday'' \<mapsto> JObj [(''in'', JStr ''09:00''), (''out'', JStr ''17:00'')],
      ''sunday'' \<mapsto> JObj [(''in'', JStr ''10:00''), (''out'', JStr ''14:00'')],
      ''friday'' \<mapsto> JNull]"

definition mondayRequest :: request where
  "mondayRequest =
     \<lparr>location = Some ''37.77,-122.42'',
      timeIn = Some ''2024-03-04T10:00:00Z'',
      timeOut = Some ''2024-03-04T12:00:00Z''\<rparr>"

section \<open>The schedule normalizer\<close>

lemma lower_days:
  "map toLowerCase daysOfWeek =
     [''monday'', ''tuesday'', ''wednesday'', ''thursday'', ''friday'', ''saturday'', ''sunday'']"
  by (simp add: toLowerCase_def lowerChar_def daysOfWeek_def)

lemma distinct_daysOfWeek: "distinct daysOfWeek"
  by (simp add: daysOfWeek_def)

lemma length_daysOfWeek: "length daysOfWeek = 7"
  by (simp add: daysOfWeek_def)

text \<open>The loop appends, to whatever the array holds, the slots of the days it visits.\<close>

lemma pushDay_append: "pushDay ct acc d = acc @ pushDay ct [] d"
  by (simp add: pushDay_def)

lemma foldl_pushDay: "foldl (pushDay ct) acc ds = acc @ concat (map (pushDay ct []) ds)"
proof (induction ds arbitrary: acc)
  case Nil
  show ?case by simp
next
  case (Cons d ds)
  show ?case
    using Cons.IH [of "pushDay ct acc d"] pushDay_append [of ct acc d] by simp
qed

lemma transform_concat: "transformCustomTimes ct = concat (map (pushDay ct []) daysOfWeek)"
  by (simp add: transformCustomTimes_def foldl_pushDay)

lemma map_day_concat:
  "map day (concat (map (pushDay ct []) ds)) =
     filter (\<lambda>d. truthy (getEntry ct (toLowerCase d))) ds"
  by (induction ds) (simp_all add: pushDay_def)

lemma map_day_transform:
  "map day (transformCustomTimes ct) =
     filter (\<lambda>d. truthy (getEntry ct (toLowerCase d))) daysOfWeek"
  by (simp add: transform_concat map_day_concat)

lemma filter_day_concat_notin:
  "d \<notin> set ds \<Longrightarrow> filter (\<lambda>s. day s = d) (concat (map (pushDay ct []) ds)) = []"
  by (induction ds) (auto simp: pushDay_def)

lemma filter_day_concat:
  "distinct ds \<Longrightarrow> d \<in> set ds \<Longrightarrow>
   filter (\<lambda>s. day s = d) (concat (map (pushDay ct []) ds)) = pushDay ct [] d"
proof (induction ds)
  case Nil
  then show ?case by simp
next
  case (Cons x xs)
  show ?case
  proof (cases "x = d")
    case True
    with Cons.prems have "d \<notin> set xs" by simp
    then have "filter (\<lambda>s. day s = d) (concat (map (pushDay ct []) xs)) = []"
      by (rule filter_day_concat_notin)
    moreover have "filter (\<lambda>s. day s = d) (pushDay ct [] d) = pushDay ct [] d"
      by (simp add: pushDay_def)
    ultimately show ?thesis using True by simp
  next
    case False
    then have "filter (\<lambda>s. day s = d) (pushDay ct [] x) = []"
      by (auto simp: pushDay_def)
    with Cons False show ?thesis by simp
  qed
qed

lemma filter_day_transform:
  "d \<in> set daysOfWeek \<Longrightarrow>
   filter (\<lambda>s. day s = d) (transformCustomTimes ct) = pushDay ct [] d"
  by (simp add: transform_concat filter_day_concat distinct_daysOfWeek)

text \<open>
  An entry that is present but falsy (\<^verbatim>\<open>null\<close>, \<^verbatim>\<open>false\<close>, \<^verbatim>\<open>0\<close>, the empty string)
  is skipped like an absent one; an entry object is always truthy.
\<close>

lemma falsy_entry_skipped:
  "\<not> truthy (getEntry ct (toLowerCase d)) \<Longrightarrow>
   filter (\<lambda>s. day s = d) (transformCustomTimes ct) = []"
proof -
  assume "\<not> truthy (getEntry ct (toLowerCase d))"
  then have "d \<notin> set (map day (transformCustomTimes ct))"
    unfolding map_day_transform by simp
  then show ?thesis by (auto simp: filter_empty_conv)
qed

text \<open>
  Claim C3. For every schedule map: each canonical day whose lowercase name is mapped to
  an entry object yields exactly one slot, carrying that day and the entry's \<^verbatim>\<open>in\<close> and
  \<^verbatim>\<open>out\<close> values; a day whose lowercase name is absent from the map yields no slot; and
  the days of the output follow the canonical Monday to Sunday order. The keys read are
  the seven lowercase weekday names.
\<close>

theorem transformCustomTimes_one_slot_per_present_day:
  "(\<forall>d \<in> set daysOfWeek. \<forall>fs. customTimes (toLowerCase d) = Some (JObj fs) \<longrightarrow>
       filter (\<lambda>s. day s = d) (transformCustomTimes customTimes) =
         [\<lparr>day = d, fromTime = getProp (JObj fs) ''in'', toTime = getProp (JObj fs) ''out''\<rparr>]) \<and>
   (\<forall>d. customTimes (toLowerCase d) = None \<longrightarrow>
       filter (\<lambda>s. day s = d) (transformCustomTimes customTimes) = []) \<and>
   subseq (map day (transformCustomTimes customTimes)) daysOfWeek \<and>
   map toLowerCase daysOfWeek =
     [''monday'', ''tuesday'', ''wednesday'', ''thursday'', ''friday'', ''saturday'', ''sunday'']"
proof (intro conjI ballI allI impI)
  fix d fs
  assume "d \<in> set daysOfWeek" and "customTimes (toLowerCase d) = Some (JObj fs)"
  then show "filter (\<lambda>s. day s = d) (transformCustomTimes customTimes) =
         [\<lparr>day = d, fromTime = getProp (JObj fs) ''in'', toTime = getProp (JObj fs) ''out''\<rparr>]"
    by (simp add: filter_day_transform pushDay_def getEntry_def)
next
  fix d
  assume absent: "customTimes (toLowerCase d) = None"
  have "\<not> truthy (getEntry customTimes (toLowerCase d))"
    using absent by (simp add: getEntry_def)
  then show "filter (\<lambda>s. day s = d) (transformCustomTimes customTimes) = []"
    by (rule falsy_entry_skipped)
next
  show "subseq (map day (transformCustomTimes customTimes)) daysOfWeek"
    unfolding map_day_transform by (rule subseq_filter_left)
next
  show "map toLowerCase daysOfWeek =
     [''monday'', ''tuesday'', ''wednesday'', ''thursday'', ''friday'', ''saturday'', ''sunday'']"
    by (rule lower_days)
qed

text \<open>
  The theorem at the sample schedule: Monday has an entry object and yields its one slot,
  Tuesday is absent and yields none.
\<close>

theorem transformCustomTimes_one_slot_per_present_day_witness:
  "''Monday'' \<in> set daysOfWeek \<and>
   sampleSchedule (toLowerCase ''Monday'') =
     Some (JObj [(''in'', JStr ''09:00''), (''out'', JStr ''17:00'')]) \<and>
   filter (\<lambda>s. day s = ''Monday'') (transformCustomTimes sampleSchedule) =
     [\<lparr>day = ''Monday'', fromTime = JStr ''09:00'', toTime = JStr ''17:00''\<rparr>] \<and>
   sampleSchedule (toLowerCase ''Tuesday'') = None \<and>
   filter (\<lambda>s. day s = ''Tuesday'') (transformCustomTimes sampleSchedule) = []"
proof -
  have m: "''Monday'' \<in> set daysOfWeek"
    by (simp add: daysOfWeek_def)
  have e: "sampleSchedule (toLowerCase ''Monday'') =
     Some (JObj [(''in'', JStr ''09:00''), (''out'', JStr ''17:00'')])"
    by (simp add: sampleSchedule_def toLowerCase_def lowerChar_def)
  have t: "sampleSchedule (toLowerCase ''Tuesday'') = None"
    by (simp add: sampleSchedule_def toLowerCase_def lowerChar_def)
  have "filter (\<lambda>s. day s = ''Monday'') (transformCustomTimes sampleSchedule) =
     [\<lparr>day = ''Monday'',
       fromTime = getProp (JObj [(''in'', JStr ''09:00''), (''out'', JStr ''17:00'')]) ''in'',
       toTime = getProp (JObj [(''in'', JStr ''09:00''), (''out'', JStr ''17:00'')]) ''out''\<rparr>]"
    using transformCustomTimes_one_slot_per_present_day [of sampleSchedule] m e by blast
  moreover have "filter (\<lambda>s. day s = ''Tuesday'') (transformCustomTimes sampleSchedule) = []"
    using transformCustomTimes_one_slot_per_present_day [of sampleSchedule] t by blast
  ultimately show ?thesis using m e t by simp
qed

text \<open>
  Claim C8. For every schedule map the normalized table has at most one slot per weekday
  (the days of its slots are pairwise distinct), and so at most seven slots.
\<close>

theorem transformCustomTimes_at_most_one_slot_per_day:
  "distinct (map day (transformCustomTimes customTimes)) \<and>
   (\<forall>d. length (filter (\<lambda>s. day s = d) (transformCustomTimes customTimes)) \<le> 1) \<and>
   length (transformCustomTimes customTimes) \<le> 7"
proof (intro conjI allI)
  show "distinct (map day (transformCustomTimes customTimes))"
    unfolding map_day_transform by (simp add: distinct_daysOfWeek)
  show "length (filter (\<lambda>s. day s = d) (transformCustomTimes customTimes)) \<le> 1" for d
  proof (cases "d \<in> set daysOfWeek")
    case True
    then show ?thesis by (simp add: filter_day_transform pushDay_def)
  next
    case False
    then have "filter (\<lambda>s. day s = d) (transformCustomTimes customTimes) = []"
      by (simp add: transform_concat filter_day_concat_notin)
    then show ?thesis by simp
  qed
  have "length (map day (transformCustomTimes customTimes)) \<le> length daysOfWeek"
    unfolding map_day_transform by (rule length_filter_le)
  then show "length (transformCustomTimes customTimes) \<le> 7"
    by (simp add: length_daysOfWeek)
qed

lemma pushDay_cong:
  "ct1 (toLowerCase d) = ct2 (toLowerCase d) \<Longrightarrow> pushDay ct1 acc d = pushDay ct2 acc d"
  by (simp add: pushDay_def getEntry_def)

text \<open>
  Claim C9. The normalizer is a function of its input alone, and of no more than the
  seven weekday entries of it: two schedule inputs that agree on these entries (the same
  input given twice, in particular) normalize to identical slot sequences, hence to equal
  sets of slots.
\<close>

theorem transformCustomTimes_depends_on_weekday_entries:
  "(\<forall>d \<in> set daysOfWeek. customTimes1 (toLowerCase d) = customTimes2 (toLowerCase d)) \<Longrightarrow>
   transformCustomTimes customTimes1 = transformCustomTimes customTimes2 \<and>
   set (transformCustomTimes customTimes1) = set (transformCustomTimes customTimes2)"
proof -
  assume agree:
    "\<forall>d \<in> set daysOfWeek. customTimes1 (toLowerCase d) = customTimes2 (toLowerCase d)"
  have "map (pushDay customTimes1 []) daysOfWeek = map (pushDay customTimes2 []) daysOfWeek"
    using agree by (intro map_cong refl pushDay_cong) simp
  then have "transformCustomTimes customTimes1 = transformCustomTimes customTimes2"
    unfolding transform_concat by (rule arg_cong)
  then show ?thesis by simp
qed

text \<open>
  The theorem at the sample schedule and the same schedule with one more key, which is
  no weekday: the two inputs differ and normalize to the same table.
\<close>

theorem transformCustomTimes_depends_on_weekday_entries_witness:
  "sampleSchedule ''holiday'' = None \<and>
   (sampleSchedule(''holiday'' \<mapsto> JObj [])) ''holiday'' = Some (JObj []) \<and>
   transformCustomTimes sampleSchedule =
     transformCustomTimes (sampleSchedule(''holiday'' \<mapsto> JObj []))"
proof -
  have differ: "sampleSchedule ''holiday'' = None"
    "(sampleSchedule(''holiday'' \<mapsto> JObj [])) ''holiday'' = Some (JObj [])"
    by (simp_all add: sampleSchedule_def)
  have agree: "\<forall>d \<in> set daysOfWeek.
      sampleSchedule (toLowerCase d) =
        (sampleSchedule(''holiday'' \<mapsto> JObj [])) (toLowerCase d)"
    by (simp add: daysOfWeek_def toLowerCase_def lowerChar_def)
  from differ transformCustomTimes_depends_on_weekday_entries [OF agree]
  show ?thesis by blast
qed

section \<open>The availability matcher\<close>

subsection \<open>Clock strings\<close>

lemma digitValue_digitChar: "d < 10 \<Longrightarrow> digitValue (digitChar d) = Some d"
proof -
  assume "d < 10"
  then have "d \<in> {0, 1, 2, 3, 4, 5, 6, 7, 8, 9}" by auto
  then show ?thesis
    by (auto simp: digitValue_def digitChar_def)
qed

lemma parseHHMM_pad2:
  assumes "a < 24" and "b < 60"
  shows "parseHHMM (pad2 a @ '':'' @ pad2 b) = Some (a * 60 + b)"
proof -
  have a: "a div 10 < 10" "a mod 10 < 10" using assms by auto
  have b: "b div 10 < 10" "b mod 10 < 10" using assms by auto
  have "10 * (a div 10) + a mod 10 = a" "10 * (b div 10) + b mod 10 = b" by auto
  then show ?thesis
    using assms a b by (simp add: parseHHMM_def pad2_def digitValue_digitChar)
qed

lemma hourFromTime_lt: "hourFromTime lt < 24"
  by (simp add: hourFromTime_def nat_less_iff)

lemma minFromTime_lt: "minFromTime lt < 60"
  by (simp add: minFromTime_def nat_less_iff)

text \<open>The clock string of a timestamp reads back as its time of day.\<close>

lemma parseHHMM_toTimeString_slice:
  "parseHHMM (toTimeString_slice h t) = Some (clockMinutes h t)"
  by (simp only: toTimeString_slice_def clockMinutes_def parseHHMM_pad2
        hourFromTime_lt minFromTime_lt)

lemma parseHHMM_length: "parseHHMM x = Some m \<Longrightarrow> length x = 5"
  by (auto simp: parseHHMM_def split: list.splits)

lemma epochDayClock_template:
  assumes "parseHHMM x = Some m"
  shows "epochDayClock (''1970-01-01T'' @ x @ '':00'') = Some m"
proof -
  have "length x = 5" using assms by (rule parseHHMM_length)
  then obtain a b c d e where x: "x = [a, b, c, d, e]"
    by (auto simp: length_Suc_conv numeral_eq_Suc)
  show ?thesis using assms unfolding x by (simp add: epochDayClock_def)
qed

lemma newDate_template:
  "parseHHMM x = Some m \<Longrightarrow>
   newDate h (''1970-01-01T'' @ x @ '':00'') = Some (int m * 60000 - LocalTZA_1970 h)"
  by (simp only: newDate_def epochDayClock_template option.case)

subsection \<open>One slot\<close>

text \<open>
  On a slot whose two times are clock times, the callback compares minutes since
  midnight: the four Dates lie on the same local day and carry the same offset.
\<close>

lemma slotCovers_clock:
  assumes f: "parseHHMM (fromTime s) = Some f" and t: "parseHHMM (toTime s) = Some t"
  shows "slotCovers h tin tout s \<longleftrightarrow>
         day s = weekdayLong h tin \<and> f \<le> clockMinutes h tin \<and> clockMinutes h tout \<le> t"
proof -
  note nd = newDate_template [OF f] newDate_template [OF t]
    newDate_template [OF parseHHMM_toTimeString_slice]
  show ?thesis
    unfolding slotCovers_def Let_def nd by (auto simp: date_ge_def date_le_def)
qed

text \<open>The callback reads the end of the request through its clock string only.\<close>

lemma slotCovers_reads_clock_only:
  "toTimeString_slice h tout = toTimeString_slice h tout' \<Longrightarrow>
   slotCovers h tin tout s = slotCovers h tin tout' s"
  by (simp add: slotCovers_def)

lemma some_js_iff: "some_js p xs \<longleftrightarrow> (\<exists>x \<in> set xs. p x)"
  by (induction xs) auto

lemma filter_js_eq: "filter_js p xs = filter p xs"
  by (induction xs) auto

lemmas eval_defs =
  slotCovers_def weekdayLong_def weekdayNames_def localTime_def utcHost_def newDate_def
  epochDayClock_def parseHHMM_def digitValue_def toTimeString_slice_def pad2_def digitChar_def
  hourFromTime_def minFromTime_def date_ge_def date_le_def clockMinutes_def localDay_def
  fromNotBeforeTo_def mondaySlot_def overnightSlot_def mondaySpace_def tuesdaySpace_def
  longDaySpace_def closedSpace_def futureSpace_def farSpace_def timeAvailable_def

subsection \<open>The weekly table\<close>

text \<open>
  Claim C1. For every record whose slot times are clock times \<^verbatim>\<open>HH:MM\<close> and every pair
  of request timestamps, the matcher retains the record if and only if some slot of its
  weekly availability has the weekday name of the start timestamp as its day, opens no
  later than the start's time of day and closes no earlier than the end's time of day.
\<close>

theorem timeAvailable_iff_slot_covers_clock:
  assumes wf: "\<forall>s \<in> set (daysAvailable p).
                 parseHHMM (fromTime s) \<noteq> None \<and> parseHHMM (toTime s) \<noteq> None"
  shows "timeAvailable h timeInDate timeOutDate p \<longleftrightarrow>
         (\<exists>s \<in> set (daysAvailable p). \<exists>f t.
            parseHHMM (fromTime s) = Some f \<and> parseHHMM (toTime s) = Some t \<and>
            day s = weekdayLong h timeInDate \<and>
            f \<le> clockMinutes h timeInDate \<and> clockMinutes h timeOutDate \<le> t)"
proof
  assume "timeAvailable h timeInDate timeOutDate p"
  then obtain s where s: "s \<in> set (daysAvailable p)"
    and c: "slotCovers h timeInDate timeOutDate s"
    by (auto simp: timeAvailable_def some_js_iff)
  from wf s obtain f t
    where ft: "parseHHMM (fromTime s) = Some f" "parseHHMM (toTime s) = Some t"
    by auto
  with c have "day s = weekdayLong h timeInDate \<and> f \<le> clockMinutes h timeInDate \<and>
      clockMinutes h timeOutDate \<le> t"
    by (simp add: slotCovers_clock)
  with s ft show "\<exists>s \<in> set (daysAvailable p). \<exists>f t.
            parseHHMM (fromTime s) = Some f \<and> parseHHMM (toTime s) = Some t \<and>
            day s = weekdayLong h timeInDate \<and>
            f \<le> clockMinutes h timeInDate \<and> clockMinutes h timeOutDate \<le> t"
    by blast
next
  assume "\<exists>s \<in> set (daysAvailable p). \<exists>f t.
            parseHHMM (fromTime s) = Some f \<and> parseHHMM (toTime s) = Some t \<and>
            day s = weekdayLong h timeInDate \<and>
            f \<le> clockMinutes h timeInDate \<and> clockMinutes h timeOutDate \<le> t"
  then obtain s f t where s: "s \<in> set (daysAvailable p)"
    and ft: "parseHHMM (fromTime s) = Some f" "parseHHMM (toTime s) = Some t"
    and c: "day s = weekdayLong h timeInDate \<and> f \<le> clockMinutes h timeInDate \<and>
      clockMinutes h timeOutDate \<le> t"
    by blast
  from ft c have "slotCovers h timeInDate timeOutDate s" by (simp add: slotCovers_clock)
  with s show "timeAvailable h timeInDate timeOutDate p"
    by (auto simp: timeAvailable_def some_js_iff)
qed

text \<open>
  The theorem on the space with the one slot Monday 09:00 to 17:00, on a UTC host:
  Monday 10:00 to 12:00 matches; Monday 08:00 to 12:00 does not (before opening);
  Monday 10:00 to 18:00 does not (after closing); Tuesday 10:00 to 12:00 does not,
  although the Monday slot covers these clock times.
\<close>

theorem timeAvailable_iff_slot_covers_clock_witness:
  "daysAvailable mondaySpace = [mondaySlot] \<and>
   parseHHMM (fromTime mondaySlot) = Some 540 \<and>
   parseHHMM (toTime mondaySlot) = Some 1020 \<and>
   timeAvailable utcHost 1709546400000 1709553600000 mondaySpace \<and>
   \<not> timeAvailable utcHost 1709539200000 1709553600000 mondaySpace \<and>
   \<not> timeAvailable utcHost 1709546400000 1709575200000 mondaySpace \<and>
   \<not> timeAvailable utcHost 1709632800000 1709640000000 mondaySpace"
proof -
  have wf: "\<forall>s \<in> set (daysAvailable mondaySpace).
      parseHHMM (fromTime s) \<noteq> None \<and> parseHHMM (toTime s) \<noteq> None"
    by (simp add: mondaySpace_def mondaySlot_def parseHHMM_def digitValue_def)
  have slots: "daysAvailable mondaySpace = [mondaySlot]"
    by (simp add: mondaySpace_def)
  have times: "parseHHMM (fromTime mondaySlot) = Some 540"
    "parseHHMM (toTime mondaySlot) = Some 1020"
    "day mondaySlot = ''Monday''"
    by (simp_all add: mondaySlot_def parseHHMM_def digitValue_def)
  have q: "weekdayLong utcHost 1709546400000 = ''Monday''"
    "weekdayLong utcHost 1709539200000 = ''Monday''"
    "weekdayLong utcHost 1709632800000 = ''Tuesday''"
    "clockMinutes utcHost 1709546400000 = 600"
    "clockMinutes utcHost 1709553600000 = 720"
    "clockMinutes utcHost 1709539200000 = 480"
    "clockMinutes utcHost 1709575200000 = 1080"
    by (simp_all add: weekdayLong_def weekdayNames_def localTime_def utcHost_def
        clockMinutes_def hourFromTime_def minFromTime_def)
  show ?thesis
    by (simp add: timeAvailable_iff_slot_covers_clock [OF wf] slots times q)
qed

text \<open>
  Claim C4, as stated, fails: the slot Monday 17:00 to 09:00 has its opening after its
  closing, and the request from Monday 2024-03-04 18:00 to Tuesday 2024-03-05 08:00
  (UTC host) matches it, since 18:00 is not before 17:00 and 08:00 is not after 09:00.
\<close>

theorem overnight_query_matches_inverted_slot:
  "fromNotBeforeTo overnightSlot \<and> (1709575200000::int) < 1709625600000 \<and>
   slotCovers utcHost 1709575200000 1709625600000 overnightSlot"
  by (simp add: eval_defs)

text \<open>
  Claim C4, amended. A slot whose opening is not before its closing never matches a
  request whose start has an earlier time of day than its end.
\<close>

theorem inverted_slot_rejects_forward_query:
  assumes "fromNotBeforeTo s"
    and "clockMinutes h timeInDate < clockMinutes h timeOutDate"
  shows "\<not> slotCovers h timeInDate timeOutDate s"
proof -
  from assms(1) obtain f t
    where ft: "parseHHMM (fromTime s) = Some f" "parseHHMM (toTime s) = Some t"
      and ge: "t \<le> f"
    by (auto simp: fromNotBeforeTo_def split: option.splits)
  show ?thesis using ge assms(2) by (simp add: slotCovers_clock [OF ft])
qed

text \<open>The amended claim on the slot 17:00 to 09:00 and the request Monday 10:00 to 12:00.\<close>

theorem inverted_slot_rejects_forward_query_witness:
  "fromNotBeforeTo overnightSlot \<and>
   clockMinutes utcHost 1709546400000 < clockMinutes utcHost 1709553600000 \<and>
   \<not> slotCovers utcHost 1709546400000 1709553600000 overnightSlot"
proof -
  have a: "fromNotBeforeTo overnightSlot"
    by (simp add: fromNotBeforeTo_def overnightSlot_def parseHHMM_def digitValue_def)
  have b: "clockMinutes utcHost 1709546400000 < clockMinutes utcHost 1709553600000"
    by (simp add: localTime_def utcHost_def clockMinutes_def hourFromTime_def minFromTime_def)
  from a b inverted_slot_rejects_forward_query [OF a b] show ?thesis by blast
qed

text \<open>
  Claim C6. There is a request whose end falls on another calendar date than its start
  and which the matcher matches: from Monday 2024-03-04 10:00 to Thursday 2024-03-07
  12:00 (UTC host), three days apart, against the slot Monday 09:00 to 17:00. Of the
  two timestamps the matcher compares the clock strings 10:00 and 12:00 only.
\<close>

theorem query_across_dates_matches:
  "(1709546400000::int) < 1709812800000 \<and>
   localDay utcHost 1709812800000 = localDay utcHost 1709546400000 + 3 \<and>
   toTimeString_slice utcHost 1709546400000 = ''10:00'' \<and>
   toTimeString_slice utcHost 1709812800000 = ''12:00'' \<and>
   timeAvailable utcHost 1709546400000 1709812800000 mondaySpace"
  by (simp add: eval_defs)

section \<open>The search\<close>

lemmas nan_defs =
  isNaN_string_def trim_def isWhiteSpace_def StrDecimalLiteral_def
  StrUnsignedDecimalLiteral_def dropSign_def NonDecimalIntegerLiteral_def
  isDecimalDigit_def ExponentPart_def

lemmas handler_defs =
  findNearbyParkingSpaces_def newDate_param_def mondayRequest_def sampleGeoWithin_def
  storeFind_def

lemma isNaN_string_empty: "\<not> isNaN_string []"
  by (simp add: isNaN_string_def trim_def)

lemma split_comma_nonempty: "split_comma s \<noteq> []"
  by (cases s) (auto split: list.splits)

lemma split_comma_component:
  "CHR '','' \<notin> set a \<Longrightarrow> split_comma (a @ CHR '','' # r) = a # split_comma r"
  by (induction a) auto

lemma split_comma_last: "CHR '','' \<notin> set a \<Longrightarrow> split_comma a = [a]"
  by (induction a) auto

subsection \<open>The query sent to the store\<close>

text \<open>
  Claim C2. Whenever the search answers with a result, it has sent the store exactly
  one query: centre the two components of the origin (longitude first), radius
  5 / 6378.1, \<open>availableFrom\<close> at most the start timestamp, \<open>isAvailable\<close> true.
  The candidates are then exactly the stored records inside the cap that are available
  and whose \<open>availableFrom\<close> is not after the start; and every record of the result is
  available, has \<open>availableFrom\<close> not after the start and lies inside the cap.
\<close>

theorem geo_filter_query_constraints:
  assumes "findNearbyParkingSpaces h (storeFind geoWithin docs) req = (qs, Status200 result)"
  shows "\<exists>loc lat lng rest timeInDate candidates.
           location req = Some loc \<and> split_comma loc = lat # lng # rest \<and>
           newDate_param h (timeIn req) = Some timeInDate \<and>
           qs = [\<lparr>centerSphere_center = (lng, lat), centerSphere_radius = 5 / 6378.1,
                  availableFrom_lte = timeInDate, isAvailable_eq = True\<rparr>] \<and>
           storeFind geoWithin docs
             \<lparr>centerSphere_center = (lng, lat), centerSphere_radius = 5 / 6378.1,
              availableFrom_lte = timeInDate, isAvailable_eq = True\<rparr> = Some candidates \<and>
           (\<forall>d. d \<in> set candidates \<longleftrightarrow>
                  d \<in> set docs \<and> geoWithin (lng, lat) (5 / 6378.1) (coordinates d) \<and>
                  availableFrom d \<le> timeInDate \<and> isAvailable d) \<and>
           (\<forall>r \<in> set result.
                  geoWithin (lng, lat) (5 / 6378.1) (coordinates r) \<and>
                  availableFrom r \<le> timeInDate \<and> isAvailable r)"
  using assms
  by (auto simp: findNearbyParkingSpaces_def Let_def filter_js_eq storeFind_def
           split: option.splits if_splits list.splits)

text \<open>
  The theorem on a collection of five records: the unavailable one, the one available
  only from 2025 and the one outside the cap are not returned.
\<close>

theorem geo_filter_query_constraints_witness:
  "findNearbyParkingSpaces utcHost
     (storeFind sampleGeoWithin [mondaySpace, closedSpace, futureSpace, farSpace, longDaySpace])
     mondayRequest =
     ([\<lparr>centerSphere_center = (''-122.42'', ''37.77''), centerSphere_radius = 5 / 6378.1,
        availableFrom_lte = 1709546400000, isAvailable_eq = True\<rparr>],
      Status200 [mondaySpace, longDaySpace]) \<and>
   sampleGeoWithin (''-122.42'', ''37.77'') (5 / 6378.1) (coordinates mondaySpace) \<and>
   availableFrom mondaySpace \<le> 1709546400000 \<and> isAvailable mondaySpace \<and>
   sampleGeoWithin (''-122.42'', ''37.77'') (5 / 6378.1) (coordinates longDaySpace) \<and>
   availableFrom longDaySpace \<le> 1709546400000 \<and> isAvailable longDaySpace \<and>
   \<not> isAvailable closedSpace \<and> \<not> availableFrom futureSpace \<le> 1709546400000 \<and>
   \<not> sampleGeoWithin (''-122.42'', ''37.77'') (5 / 6378.1) (coordinates farSpace)"
proof -
  have run: "findNearbyParkingSpaces utcHost
     (storeFind sampleGeoWithin [mondaySpace, closedSpace, futureSpace, farSpace, longDaySpace])
     mondayRequest =
     ([\<lparr>centerSphere_center = (''-122.42'', ''37.77''), centerSphere_radius = 5 / 6378.1,
        availableFrom_lte = 1709546400000, isAvailable_eq = True\<rparr>],
      Status200 [mondaySpace, longDaySpace])"
    by (simp add: handler_defs nan_defs eval_defs)
  have tin: "newDate_param utcHost (timeIn mondayRequest) = Some 1709546400000"
    by (simp add: handler_defs eval_defs)
  have out: "\<not> isAvailable closedSpace" "\<not> availableFrom futureSpace \<le> 1709546400000"
    "\<not> sampleGeoWithin (''-122.42'', ''37.77'') (5 / 6378.1) (coordinates farSpace)"
    by (simp_all add: closedSpace_def futureSpace_def farSpace_def mondaySpace_def
        sampleGeoWithin_def)
  from geo_filter_query_constraints [OF run] obtain lat lng ti
    where t: "newDate_param utcHost (timeIn mondayRequest) = Some ti"
      and q: "[\<lparr>centerSphere_center = (''-122.42'', ''37.77''),
                 centerSphere_radius = 5 / 6378.1,
                 availableFrom_lte = 1709546400000, isAvailable_eq = True\<rparr>] =
              [\<lparr>centerSphere_center = (lng, lat), centerSphere_radius = 5 / 6378.1,
                 availableFrom_lte = ti, isAvailable_eq = True\<rparr>]"
      and r: "\<forall>r \<in> set [mondaySpace, longDaySpace].
                sampleGeoWithin (lng, lat) (5 / 6378.1) (coordinates r) \<and>
                availableFrom r \<le> ti \<and> isAvailable r"
    by blast
  from q have c: "lng = ''-122.42''" "lat = ''37.77''" and ti: "ti = 1709546400000"
    by simp_all
  from r have "sampleGeoWithin (''-122.42'', ''37.77'') (5 / 6378.1) (coordinates mondaySpace) \<and>
      availableFrom mondaySpace \<le> 1709546400000 \<and> isAvailable mondaySpace \<and>
      sampleGeoWithin (''-122.42'', ''37.77'') (5 / 6378.1) (coordinates longDaySpace) \<and>
      availableFrom longDaySpace \<le> 1709546400000 \<and> isAvailable longDaySpace"
    unfolding c ti by simp
  with run out show ?thesis by blast
qed

subsection \<open>Order of the result\<close>

text \<open>
  Claim C7. Whenever the search answers with a result, the result is the sequence of the
  candidates the store returned that pass the matcher, in the store's order: the
  filtered list, a subsequence of the candidates.
\<close>

theorem search_result_is_filtered_candidates:
  assumes "findNearbyParkingSpaces h dbFind req = (qs, Status200 result)"
  shows "\<exists>q timeInDate timeOutDate candidates.
           qs = [q] \<and> dbFind q = Some candidates \<and>
           newDate_param h (timeIn req) = Some timeInDate \<and>
           newDate_param h (timeOut req) = Some timeOutDate \<and>
           result = filter (timeAvailable h timeInDate timeOutDate) candidates \<and>
           subseq result candidates"
  using assms
  by (auto simp: findNearbyParkingSpaces_def Let_def filter_js_eq
           split: option.splits if_splits list.splits)

text \<open>
  The theorem on a store that returns three candidates: the first and the third are
  open on Monday 10:00 to 12:00 and are returned in that order.
\<close>

theorem search_result_is_filtered_candidates_witness:
  "findNearbyParkingSpaces utcHost (\<lambda>q. Some [mondaySpace, tuesdaySpace, longDaySpace])
     mondayRequest =
     ([\<lparr>centerSphere_center = (''-122.42'', ''37.77''), centerSphere_radius = 5 / 6378.1,
        availableFrom_lte = 1709546400000, isAvailable_eq = True\<rparr>],
      Status200 [mondaySpace, longDaySpace]) \<and>
   [mondaySpace, longDaySpace] =
     filter (timeAvailable utcHost 1709546400000 1709553600000)
       [mondaySpace, tuesdaySpace, longDaySpace] \<and>
   subseq [mondaySpace, longDaySpace] [mondaySpace, tuesdaySpace, longDaySpace]"
proof -
  have run: "findNearbyParkingSpaces utcHost
     (\<lambda>q. Some [mondaySpace, tuesdaySpace, longDaySpace]) mondayRequest =
     ([\<lparr>centerSphere_center = (''-122.42'', ''37.77''), centerSphere_radius = 5 / 6378.1,
        availableFrom_lte = 1709546400000, isAvailable_eq = True\<rparr>],
      Status200 [mondaySpace, longDaySpace])"
    by (simp add: handler_defs nan_defs eval_defs)
  have tin: "newDate_param utcHost (timeIn mondayRequest) = Some 1709546400000"
    and tout: "newDate_param utcHost (timeOut mondayRequest) = Some 1709553600000"
    by (simp_all add: handler_defs eval_defs)
  from search_result_is_filtered_candidates [OF run] obtain q ti to cands
    where c: "(\<lambda>q. Some [mondaySpace, tuesdaySpace, longDaySpace]) q = Some cands"
      and ti: "newDate_param utcHost (timeIn mondayRequest) = Some ti"
      and to: "newDate_param utcHost (timeOut mondayRequest) = Some to"
      and r: "[mondaySpace, longDaySpace] = filter (timeAvailable utcHost ti to) cands"
      and s: "subseq [mondaySpace, longDaySpace] cands"
    by blast
  have cands: "cands = [mondaySpace, tuesdaySpace, longDaySpace]" using c by simp
  have ti': "ti = 1709546400000" using ti tin by simp
  have to': "to = 1709553600000" using to tout by simp
  from run r s show ?thesis unfolding cands ti' to' by blast
qed

subsection \<open>Validation of the request\<close>

text \<open>
  What the validation does reject, with no query sent to the store: a missing or empty
  origin, an origin with fewer than two components, a component that converts to NaN,
  and a timestamp that is an Invalid Date.
\<close>

lemma malformed_rejected_before_query:
  assumes "(case location req of
              None \<Rightarrow> True
            | Some loc \<Rightarrow>
                loc = [] \<or>
                (case split_comma loc of
                   lat # lng # rest \<Rightarrow> isNaN_string lat \<or> isNaN_string lng
                 | _ \<Rightarrow> True)) \<or>
           newDate_param h (timeIn req) = None \<or> newDate_param h (timeOut req) = None"
  shows "\<exists>msg. findNearbyParkingSpaces h dbFind req = ([], Status400 msg)"
proof (cases "location req")
  case None
  then show ?thesis by (simp add: findNearbyParkingSpaces_def)
next
  case (Some loc)
  show ?thesis
  proof (cases "split_comma loc")
    case Nil
    with Some show ?thesis by (simp add: findNearbyParkingSpaces_def)
  next
    case (Cons lat tl)
    note outer = this
    show ?thesis
    proof (cases tl)
      case Nil
      with Some outer show ?thesis by (simp add: findNearbyParkingSpaces_def)
    next
      case (Cons lng rest)
      with Some outer assms show ?thesis
        by (cases "newDate_param h (timeIn req)"; cases "newDate_param h (timeOut req)")
           (auto simp: findNearbyParkingSpaces_def)
    qed
  qed
qed

lemma abc_rejected:
  "findNearbyParkingSpaces h dbFind (req\<lparr>location := Some ''abc,12.3''\<rparr>) =
     ([], Status400 ''Invalid location format'')"
  by (simp add: findNearbyParkingSpaces_def nan_defs)

lemma infinity_reaches_store:
  "findNearbyParkingSpaces utcHost (\<lambda>q. Some [])
     (mondayRequest\<lparr>location := Some ''Infinity,12.3''\<rparr>) =
     ([\<lparr>centerSphere_center = (''12.3'', ''Infinity''), centerSphere_radius = 5 / 6378.1,
        availableFrom_lte = 1709546400000, isAvailable_eq = True\<rparr>],
      Status200 [])"
  by (simp add: handler_defs nan_defs eval_defs)

text \<open>
  Claim C5 does not hold of the code. The origin \<^verbatim>\<open>,12.3\<close> is not two numbers, yet
  with two timestamps that parse the search sends the store a query, its centre the
  pair of strings \<^verbatim>\<open>12.3\<close> and the empty string, and answers with status 200; on a
  store that finds nothing, with the empty list.
\<close>

theorem empty_latitude_reaches_store:
  "findNearbyParkingSpaces utcHost (\<lambda>q. Some [])
     (mondayRequest\<lparr>location := Some '',12.3''\<rparr>) =
     ([\<lparr>centerSphere_center = (''12.3'', ''''), centerSphere_radius = 5 / 6378.1,
        availableFrom_lte = 1709546400000, isAvailable_eq = True\<rparr>],
      Status200 [])"
  by (simp add: handler_defs nan_defs eval_defs)

text \<open>
  Claim C10, as stated, fails: the first component of the origin \<^verbatim>\<open>,abc\<close> is empty,
  and the validation rejects the origin, for its second component.
\<close>

theorem empty_component_with_text_rejected:
  "split_comma '',abc'' = ['''', ''abc''] \<and>
   findNearbyParkingSpaces utcHost (\<lambda>q. Some [])
     (mondayRequest\<lparr>location := Some '',abc''\<rparr>) =
     ([], Status400 ''Invalid location format'')"
  by (simp add: handler_defs nan_defs)

text \<open>
  Claim C10, amended. For every origin whose first or second component is empty and
  whose other one of the two does not convert to NaN, the validation of the coordinates
  signals no error; when both timestamps parse as well, the store is sent one query,
  whose centre is the pair of the second and the first component as split. Components
  after the second have no part in either.
\<close>

theorem empty_component_accepted:
  assumes loc: "location req = Some loc"
    and parts: "split_comma loc = a # b # others"
    and empty: "a = [] \<and> \<not> isNaN_string b \<or> b = [] \<and> \<not> isNaN_string a"
  shows "snd (findNearbyParkingSpaces h dbFind req) \<noteq> Status400 ''Location is required'' \<and>
         snd (findNearbyParkingSpaces h dbFind req) \<noteq> Status400 ''Invalid location format'' \<and>
         (\<forall>timeInDate timeOutDate.
            newDate_param h (timeIn req) = Some timeInDate \<and>
            newDate_param h (timeOut req) = Some timeOutDate \<longrightarrow>
            fst (findNearbyParkingSpaces h dbFind req) =
              [\<lparr>centerSphere_center = (b, a), centerSphere_radius = 5 / 6378.1,
                availableFrom_lte = timeInDate, isAvailable_eq = True\<rparr>])"
proof -
  have ne: "loc \<noteq> []" using parts by auto
  have ok: "\<not> isNaN_string a" "\<not> isNaN_string b"
    using empty isNaN_string_empty by auto
  show ?thesis
    using loc parts ne ok
    by (auto simp: findNearbyParkingSpaces_def Let_def split: option.splits)
qed

text \<open>The amended claim on the origin \<^verbatim>\<open>,12.3,9\<close>, whose third component is dropped.\<close>

theorem empty_component_accepted_witness:
  "split_comma '',12.3,9'' = ['''', ''12.3'', ''9''] \<and> \<not> isNaN_string ''12.3'' \<and>
   snd (findNearbyParkingSpaces utcHost (\<lambda>q. Some [])
          (mondayRequest\<lparr>location := Some '',12.3,9''\<rparr>))
     \<noteq> Status400 ''Invalid location format'' \<and>
   fst (findNearbyParkingSpaces utcHost (\<lambda>q. Some [])
          (mondayRequest\<lparr>location := Some '',12.3,9''\<rparr>)) =
     [\<lparr>centerSphere_center = (''12.3'', ''''), centerSphere_radius = 5 / 6378.1,
       availableFrom_lte = 1709546400000, isAvailable_eq = True\<rparr>]"
proof -
  have loc: "location (mondayRequest\<lparr>location := Some '',12.3,9''\<rparr>) = Some '',12.3,9''"
    by simp
  have parts: "split_comma '',12.3,9'' = [] # ''12.3'' # [''9'']"
    by simp
  have num: "[] = ([]::string) \<and> \<not> isNaN_string ''12.3'' \<or>
             ''12.3'' = [] \<and> \<not> isNaN_string []"
    by (simp add: nan_defs)
  have tin: "newDate_param utcHost (timeIn (mondayRequest\<lparr>location := Some '',12.3,9''\<rparr>)) =
             Some 1709546400000"
    and tout: "newDate_param utcHost (timeOut (mondayRequest\<lparr>location := Some '',12.3,9''\<rparr>)) =
             Some 1709553600000"
    by (simp_all add: handler_defs eval_defs)
  from empty_component_accepted [OF loc parts num, of utcHost "\<lambda>q. Some []"] tin tout parts num
  show ?thesis by auto
qed

end
